theory Spec2Isabelle
  imports Complex_Main
begin

section \<open>JavaScript values used by \<open>src/render.js\<close>\<close>

text \<open>
  A JavaScript number is modelled as a real number or one of the three special values.
  Arithmetic on finite numbers is exact (no rounding, no overflow to infinity), and there
  is a single zero.  Every comparison with \<open>NaN\<close> is false, as in the language.
\<close>

datatype jsnum = Fin real | PInf | NInf | NaN

fun jslt :: "jsnum \<Rightarrow> jsnum \<Rightarrow> bool" where
  "jslt NaN _ = False"
| "jslt _ NaN = False"
| "jslt (Fin a) (Fin b) = (a < b)"
| "jslt _ NInf = False"
| "jslt NInf _ = True"
| "jslt PInf _ = False"
| "jslt (Fin a) PInf = True"

definition jsle :: "jsnum \<Rightarrow> jsnum \<Rightarrow> bool" where
  "jsle a b = (a \<noteq> NaN \<and> b \<noteq> NaN \<and> \<not> jslt b a)"

fun jsneg :: "jsnum \<Rightarrow> jsnum" where
  "jsneg (Fin a) = Fin (- a)"
| "jsneg PInf = NInf"
| "jsneg NInf = PInf"
| "jsneg NaN = NaN"

fun jsadd :: "jsnum \<Rightarrow> jsnum \<Rightarrow> jsnum" where
  "jsadd NaN _ = NaN"
| "jsadd _ NaN = NaN"
| "jsadd (Fin a) (Fin b) = Fin (a + b)"
| "jsadd PInf NInf = NaN"
| "jsadd NInf PInf = NaN"
| "jsadd PInf _ = PInf"
| "jsadd NInf _ = NInf"
| "jsadd (Fin a) PInf = PInf"
| "jsadd (Fin a) NInf = NInf"

definition jssub :: "jsnum \<Rightarrow> jsnum \<Rightarrow> jsnum" where
  "jssub a b = jsadd a (jsneg b)"

text \<open>The infinity with the sign of a non-zero real, and \<open>NaN\<close> for zero.\<close>

definition infOfSign :: "real \<Rightarrow> jsnum" where
  "infOfSign a = (if a = 0 then NaN else if 0 < a then PInf else NInf)"

fun jsmul :: "jsnum \<Rightarrow> jsnum \<Rightarrow> jsnum" where
  "jsmul NaN _ = NaN"
| "jsmul _ NaN = NaN"
| "jsmul (Fin a) (Fin b) = Fin (a * b)"
| "jsmul (Fin a) PInf = infOfSign a"
| "jsmul (Fin a) NInf = infOfSign (- a)"
| "jsmul PInf (Fin b) = infOfSign b"
| "jsmul NInf (Fin b) = infOfSign (- b)"
| "jsmul PInf PInf = PInf"
| "jsmul NInf NInf = PInf"
| "jsmul PInf NInf = NInf"
| "jsmul NInf PInf = NInf"

fun jsdiv :: "jsnum \<Rightarrow> jsnum \<Rightarrow> jsnum" where
  "jsdiv NaN _ = NaN"
| "jsdiv _ NaN = NaN"
| "jsdiv (Fin a) (Fin b) = (if b = 0 then infOfSign a else Fin (a / b))"
| "jsdiv (Fin a) _ = Fin 0"
| "jsdiv PInf (Fin b) = (if b < 0 then NInf else PInf)"
| "jsdiv NInf (Fin b) = (if b < 0 then PInf else NInf)"
| "jsdiv _ _ = NaN"

text \<open>\<open>Math.max\<close>, \<open>Math.min\<close> and \<open>Math.ceil\<close> on two (one) numbers.\<close>

definition Math_max :: "jsnum \<Rightarrow> jsnum \<Rightarrow> jsnum" where
  "Math_max a b = (if a = NaN \<or> b = NaN then NaN else if jslt a b then b else a)"

definition Math_min :: "jsnum \<Rightarrow> jsnum \<Rightarrow> jsnum" where
  "Math_min a b = (if a = NaN \<or> b = NaN then NaN else if jslt b a then b else a)"

fun Math_ceil :: "jsnum \<Rightarrow> jsnum" where
  "Math_ceil (Fin a) = Fin (of_int \<lceil>a\<rceil>)"
| "Math_ceil n = n"

definition isNaN :: "jsnum \<Rightarrow> bool" where
  "isNaN s = (s = NaN)"

definition truthyNum :: "jsnum \<Rightarrow> bool" where
  "truthyNum n = (n \<noteq> Fin 0 \<and> n \<noteq> NaN)"

text \<open>
  The values an option can hold.  A string is a list of code units (Isabelle characters,
  so code units below 256).  An object or array is represented by what \<open>Number\<close> makes of
  it: \<open>Some n\<close>, or \<open>None\<close> when the conversion to a primitive throws.  Objects have none
  of the string methods, so a method call on them throws.
\<close>

datatype jsval =
    Undefined
  | Null
  | Bool bool
  | Num jsnum
  | Str string
  | Obj "jsnum option"

datatype error = TypeError | TimeoutError | EngineError string

fun truthy :: "jsval \<Rightarrow> bool" where
  "truthy Undefined = False"
| "truthy Null = False"
| "truthy (Bool b) = b"
| "truthy (Num n) = truthyNum n"
| "truthy (Str s) = (s \<noteq> [])"
| "truthy (Obj _) = True"

text \<open>\<open>a || b\<close> on values, and \<open>n || 0\<close> on a number.\<close>

definition jsor :: "jsval \<Rightarrow> jsval \<Rightarrow> jsval" where
  "jsor a b = (if truthy a then a else b)"

definition numOr :: "jsnum \<Rightarrow> jsnum \<Rightarrow> jsnum" where
  "numOr a b = (if truthyNum a then a else b)"

section \<open>Numeric strings: \<open>parseFloat\<close> and \<open>Number\<close>\<close>

definition isDigit :: "char \<Rightarrow> bool" where
  "isDigit c = (48 \<le> (of_char c :: nat) \<and> (of_char c :: nat) \<le> 57)"

definition digitVal :: "char \<Rightarrow> nat" where
  "digitVal c = of_char c - 48"

text \<open>White space and line terminators among the code units below 256.\<close>

definition isWhite :: "char \<Rightarrow> bool" where
  "isWhite c = ((of_char c :: nat) \<in> {9, 10, 11, 12, 13, 32, 160})"

definition digitsVal :: "string \<Rightarrow> nat" where
  "digitsVal ds = foldl (\<lambda>acc c. acc * 10 + digitVal c) 0 ds"

definition isPrefix :: "string \<Rightarrow> string \<Rightarrow> bool" where
  "isPrefix p s = (take (length p) s = p)"

text \<open>
  The exponent part at the head of a string: \<open>e\<close> or \<open>E\<close>, an optional sign and at least
  one digit.  Returns the exponent and the rest, or exponent 0 and the whole string when
  there is no exponent part.
\<close>

definition exponentPart :: "string \<Rightarrow> int \<times> string" where
  "exponentPart s =
     (case s of
        [] \<Rightarrow> (0, s)
      | c # r \<Rightarrow>
          if c = CHR ''e'' \<or> c = CHR ''E'' then
            (let (neg, r1) = (case r of
                                [] \<Rightarrow> (False, r)
                              | d # r' \<Rightarrow> if d = CHR ''-'' then (True, r')
                                          else if d = CHR ''+'' then (False, r')
                                          else (False, r));
                 ds = takeWhile isDigit r1
             in if ds = [] then (0, s)
                else ((if neg then - int (digitsVal ds) else int (digitsVal ds)),
                      dropWhile isDigit r1))
          else (0, s))"

definition scaleByPow10 :: "real \<Rightarrow> int \<Rightarrow> real" where
  "scaleByPow10 m e = (if 0 \<le> e then m * 10 ^ nat e else m / 10 ^ nat (- e))"

text \<open>
  The longest prefix of a string that is an unsigned decimal literal (\<open>Infinity\<close>,
  \<open>12\<close>, \<open>12.\<close>, \<open>12.5\<close>, \<open>.5\<close>, each but the first with an optional exponent part):
  its value and the rest of the string, or \<open>None\<close>.
\<close>

definition unsignedDecimal :: "string \<Rightarrow> (jsnum \<times> string) option" where
  "unsignedDecimal s =
     (if isPrefix ''Infinity'' s then Some (PInf, drop 8 s)
      else
        let ip = takeWhile isDigit s;
            r1 = dropWhile isDigit s;
            hasDot = (r1 \<noteq> [] \<and> hd r1 = CHR ''.'' \<and> (ip \<noteq> [] \<or> (tl r1 \<noteq> [] \<and> isDigit (hd (tl r1)))));
            fp = (if hasDot then takeWhile isDigit (tl r1) else []);
            r2 = (if hasDot then dropWhile isDigit (tl r1) else r1)
        in if ip = [] \<and> fp = [] then None
           else
             let mant = real (digitsVal ip) + real (digitsVal fp) / 10 ^ length fp;
                 (e, r3) = exponentPart r2
             in Some (Fin (scaleByPow10 mant e), r3))"

definition signedDecimal :: "string \<Rightarrow> (jsnum \<times> string) option" where
  "signedDecimal s =
     (case s of
        [] \<Rightarrow> None
      | c # r \<Rightarrow>
          if c = CHR ''-'' then
            (case unsignedDecimal r of None \<Rightarrow> None | Some (v, rest) \<Rightarrow> Some (jsneg v, rest))
          else if c = CHR ''+'' then unsignedDecimal r
          else unsignedDecimal s)"

definition parseFloat :: "string \<Rightarrow> jsnum" where
  "parseFloat s =
     (case signedDecimal (dropWhile isWhite s) of None \<Rightarrow> NaN | Some (v, _) \<Rightarrow> v)"

definition trim :: "string \<Rightarrow> string" where
  "trim s = rev (dropWhile isWhite (rev (dropWhile isWhite s)))"

text \<open>Digits of a literal in base 2, 8 or 16 (\<open>0b\<close>, \<open>0o\<close>, \<open>0x\<close>).\<close>

definition baseDigit :: "nat \<Rightarrow> char \<Rightarrow> nat option" where
  "baseDigit b c =
     (let n = (of_char c :: nat);
          v = (if 48 \<le> n \<and> n \<le> 57 then Some (n - 48)
               else if 97 \<le> n \<and> n \<le> 102 then Some (n - 87)
               else if 65 \<le> n \<and> n \<le> 70 then Some (n - 55)
               else None)
      in case v of None \<Rightarrow> None | Some d \<Rightarrow> if d < b then Some d else None)"

fun baseDigits :: "nat \<Rightarrow> nat \<Rightarrow> string \<Rightarrow> nat option" where
  "baseDigits b acc [] = Some acc"
| "baseDigits b acc (c # cs) =
     (case baseDigit b c of None \<Rightarrow> None | Some d \<Rightarrow> baseDigits b (acc * b + d) cs)"

definition nonDecimal :: "string \<Rightarrow> jsnum option" where
  "nonDecimal t =
     (case t of
        z # k # d # ds \<Rightarrow>
          if z = CHR ''0'' then
            (let b = (if k = CHR ''x'' \<or> k = CHR ''X'' then 16
                      else if k = CHR ''o'' \<or> k = CHR ''O'' then 8
                      else if k = CHR ''b'' \<or> k = CHR ''B'' then 2 else (0::nat))
             in if b = 0 then None
                else (case baseDigits b 0 (d # ds) of
                        None \<Rightarrow> Some NaN
                      | Some n \<Rightarrow> Some (Fin (real n))))
          else None
      | _ \<Rightarrow> None)"

text \<open>\<open>Number(s)\<close> for a string: the whole trimmed string must be a numeric literal.\<close>

definition stringToNumber :: "string \<Rightarrow> jsnum" where
  "stringToNumber s =
     (let t = trim s
      in if t = [] then Fin 0
         else (case nonDecimal t of
                 Some v \<Rightarrow> v
               | None \<Rightarrow>
                   (case signedDecimal t of
                      None \<Rightarrow> NaN
                    | Some (v, rest) \<Rightarrow> if rest = [] then v else NaN)))"

fun Number :: "jsval \<Rightarrow> error + jsnum" where
  "Number Undefined = Inr NaN"
| "Number Null = Inr (Fin 0)"
| "Number (Bool b) = Inr (Fin (if b then 1 else 0))"
| "Number (Num n) = Inr n"
| "Number (Str s) = Inr (stringToNumber s)"
| "Number (Obj None) = Inl TypeError"
| "Number (Obj (Some n)) = Inr n"

text \<open>
  \<open>toUpperCase\<close> on the ASCII letters; other code units are left as they are.  No other
  character has an upper case made of the characters of \<open>A4\<close>, \<open>A5\<close>, \<open>LETTER\<close> or
  \<open>LEGAL\<close>, so the comparisons of the paper name are those of the language.
\<close>

definition upperChar :: "char \<Rightarrow> char" where
  "upperChar c =
     (if 97 \<le> (of_char c :: nat) \<and> (of_char c :: nat) \<le> 122
      then char_of ((of_char c :: nat) - 32) else c)"

definition toUpperCase :: "string \<Rightarrow> string" where
  "toUpperCase s = map upperChar s"

definition endsWith :: "string \<Rightarrow> string \<Rightarrow> bool" where
  "endsWith m t = (length t \<le> length m \<and> drop (length m - length t) m = t)"

text \<open>\<open>m.slice(0, -2)\<close>: all but the last two code units, empty for a shorter string.\<close>

definition sliceOffTwo :: "string \<Rightarrow> string" where
  "sliceOffTwo m = (if length m < 2 then [] else take (length m - 2) m)"

section \<open>\<open>parseMarginToMm\<close> and \<open>clampScale\<close>\<close>

text \<open>
  \<open>parseMarginToMm\<close>, lines 29 to 36.  A truthy value that is neither a number nor a
  string has no \<open>endsWith\<close> method: the call throws a \<open>TypeError\<close>.
\<close>

fun parseMarginToMm :: "jsval \<Rightarrow> error + jsnum" where
  "parseMarginToMm (Num n) = (if \<not> truthyNum n then Inr (Fin 0) else Inr n)"
| "parseMarginToMm (Str m) =
     (if m = [] then Inr (Fin 0)
      else if endsWith m ''mm'' then Inr (parseFloat (sliceOffTwo m))
      else if endsWith m ''cm'' then Inr (jsmul (parseFloat (sliceOffTwo m)) (Fin 10))
      else if endsWith m ''in'' then Inr (jsmul (parseFloat (sliceOffTwo m)) (Fin (254 / 10)))
      else Inr (parseFloat m))"
| "parseMarginToMm v = (if \<not> truthy v then Inr (Fin 0) else Inl TypeError)"

text \<open>Line 82: \<open>parseMarginToMm(...) || 0\<close>, the margin in millimetres the layout uses.\<close>

definition marginToMm :: "jsval \<Rightarrow> error + jsnum" where
  "marginToMm v = (case parseMarginToMm v of Inl e \<Rightarrow> Inl e | Inr n \<Rightarrow> Inr (numOr n (Fin 0)))"

text \<open>
  \<open>clampScale\<close>, lines 38 to 44.  \<open>None\<close> as argument stands for \<open>null\<close> or
  \<open>undefined\<close>, \<open>None\<close> as result for \<open>null\<close>.
\<close>

fun clampScale :: "jsnum option \<Rightarrow> jsnum option" where
  "clampScale None = None"
| "clampScale (Some s) =
     (if isNaN s then None
      else if jslt s (Fin (1 / 10)) then Some (Fin (1 / 10))
      else if jslt (Fin 2) s then Some (Fin 2)
      else Some s)"

section \<open>The options and the layout computation of \<open>renderHtmlToBuffer\<close>\<close>

text \<open>The option bag \<open>opts\<close>: every field holds any value, \<open>Undefined\<close> when absent.\<close>

record options =
  png :: jsval
  dpi :: jsval
  format :: jsval
  orientation :: jsval
  margin :: jsval
  single :: jsval
  scale :: jsval

record contentSize =
  width :: jsnum
  height :: jsnum

text \<open>
  The values computed by lines 72 to 96, in the order the code computes them.
  \<open>fitScale\<close> is the variable \<open>scale\<close> after line 90, \<open>chosenScale\<close> after line 94 (the
  manual override) and \<open>finalScale\<close> after the two comparisons of lines 95 and 96.
\<close>

record layout =
  paper :: string
  paperWidthMm :: jsnum
  paperHeightMm :: jsnum
  marginMm :: jsnum
  availableWidthPx :: jsnum
  availableHeightPx :: jsnum
  fitScale :: jsnum
  chosenScale :: jsnum
  finalScale :: jsnum

definition pxPerMm :: jsnum where
  "pxPerMm = jsdiv (Fin 96) (Fin (254 / 10))"

text \<open>Line 73: \<open>(opts.format || 'A4').toUpperCase()\<close>; only a string has the method.\<close>

definition paperOf :: "jsval \<Rightarrow> error + string" where
  "paperOf f = (case jsor f (Str ''A4'') of Str s \<Rightarrow> Inr (toUpperCase s) | _ \<Rightarrow> Inl TypeError)"

text \<open>Lines 74 to 77: the size table, width and height in millimetres.\<close>

definition paperMm :: "string \<Rightarrow> real \<times> real" where
  "paperMm p =
     (if p = ''A5'' then (148, 210)
      else if p = ''LETTER'' then (216, 279)
      else if p = ''LEGAL'' then (216, 356)
      else (210, 297))"

text \<open>Line 80: the test \<open>opts.orientation === 'landscape'\<close>.\<close>

definition isLandscape :: "jsval \<Rightarrow> bool" where
  "isLandscape v = (v = Str ''landscape'')"

text \<open>Lines 83 and 84: \<open>Math.max(1, (paperMm - 2 * marginMm) * pxPerMm)\<close>.\<close>

definition availablePx :: "jsnum \<Rightarrow> jsnum \<Rightarrow> jsnum" where
  "availablePx sideMm m = Math_max (Fin 1) (jsmul (jssub sideMm (jsmul (Fin 2) m)) pxPerMm)"

text \<open>Lines 91 to 94: the manual override; \<open>Number\<close> may throw on an object.\<close>

definition manualOverride :: "jsval \<Rightarrow> jsnum \<Rightarrow> error + jsnum" where
  "manualOverride v sc =
     (if truthy v then
        (case Number v of
           Inl e \<Rightarrow> Inl e
         | Inr n \<Rightarrow>
             (case clampScale (Some n) of
                None \<Rightarrow> Inr sc
              | Some cl \<Rightarrow> if truthyNum cl then Inr cl else Inr sc))
      else Inr sc)"

text \<open>Lines 95 and 96.\<close>

definition safetyClamp :: "jsnum \<Rightarrow> jsnum" where
  "safetyClamp sc =
     (let s1 = (if jslt sc (Fin (1 / 10)) then Fin (1 / 10) else sc)
      in if jslt (Fin 2) s1 then Fin 2 else s1)"

text \<open>Lines 72 to 96 as a function of the options and the measured content size.\<close>

definition fitLayout :: "options \<Rightarrow> contentSize \<Rightarrow> error + layout" where
  "fitLayout opts cs =
     (case paperOf (format opts) of
        Inl e \<Rightarrow> Inl e
      | Inr p \<Rightarrow>
          let (w, h) = paperMm p;
              (pw, ph) = (if isLandscape (orientation opts) then (h, w) else (w, h))
          in (case marginToMm (jsor (margin opts) (Str ''10mm'')) of
                Inl e \<Rightarrow> Inl e
              | Inr mm \<Rightarrow>
                  let aw = availablePx (Fin pw) mm;
                      ah = availablePx (Fin ph) mm;
                      s0 = jsdiv aw (width cs);
                      s1 = (if truthy (single opts) then Math_min s0 (jsdiv ah (height cs)) else s0)
                  in (case manualOverride (scale opts) s1 of
                        Inl e \<Rightarrow> Inl e
                      | Inr s2 \<Rightarrow>
                          Inr \<lparr> paper = p, paperWidthMm = Fin pw, paperHeightMm = Fin ph,
                                marginMm = mm, availableWidthPx = aw, availableHeightPx = ah,
                                fitScale = s1, chosenScale = s2,
                                finalScale = safetyClamp s2 \<rparr>)))"

section \<open>The rendering backend and \<open>renderHtmlToBuffer\<close>\<close>

type_synonym buffer = "nat list"

record contextOptions =
  deviceScaleFactor :: "jsnum option"
  viewport :: "(nat \<times> nat) option"

record pdfMargin =
  top :: jsval
  bottom :: jsval
  left :: jsval
  right :: jsval

record pdfOptions =
  printBackground :: bool
  format :: string
  landscape :: bool
  margin :: pdfMargin
  scale :: jsnum

text \<open>The object returned at line 115.\<close>

record result =
  buffer :: buffer
  scale :: jsnum
  contentSize :: contentSize
  paper :: string
  orientation :: jsval

text \<open>
  What the browser does in one run is a parameter: each call of the rendering backend
  either fails with an error or succeeds, with a value where the call has one.  The
  outcome of \<open>page.setViewportSize\<close> is caught and ignored at line 102, so it has no
  field; the call itself is recorded among the events.
\<close>

record backend =
  launch :: "error option"
  newContext :: "contextOptions \<Rightarrow> error option"
  newPage :: "error option"
  setContent :: "string \<Rightarrow> error option"
  evaluate :: "error + contentSize"
  screenshot :: "bool \<Rightarrow> error + buffer"
  pdf :: "pdfOptions \<Rightarrow> error + buffer"
  pageClose :: "error option"
  contextClose :: "error option"

text \<open>The calls a run makes, in order: backend calls and log lines.\<close>

datatype event =
    Log string
  | Launch
  | NewContext contextOptions
  | NewPage
  | SetContent string
  | Evaluate
  | SetViewportSize jsnum jsnum
  | Screenshot bool
  | Pdf pdfOptions
  | PageClose
  | ContextClose

text \<open>The set \<open>PAPER_SIZES\<close> of line 4.\<close>

definition PAPER_SIZES :: "string set" where
  "PAPER_SIZES = {''A4'', ''A5'', ''LETTER'', ''LEGAL''}"

text \<open>
  \<open>initBrowser\<close>, lines 8 to 18.  The module variable \<open>browser\<close> is a flag: set once the
  browser has been launched.  Returns the error of a failed launch, the flag and the calls.
\<close>

definition initBrowser :: "backend \<Rightarrow> bool \<Rightarrow> error option \<times> bool \<times> event list" where
  "initBrowser be browser =
     (if \<not> browser then
        (case launch be of
           Some e \<Rightarrow> (Some e, False, [Log ''Launching Playwright browser...'', Launch])
         | None \<Rightarrow> (None, True, [Log ''Launching Playwright browser...'', Launch,
                                 Log ''Browser launched.'']))
      else (None, True, []))"

text \<open>Line 49: \<open>opts.dpi && Number(opts.dpi) > 0 ? Number(opts.dpi) : 96\<close>.\<close>

definition dpiOf :: "jsval \<Rightarrow> error + jsnum" where
  "dpiOf v =
     (if truthy v then
        (case Number v of
           Inl e \<Rightarrow> Inl e
         | Inr n \<Rightarrow> if jslt (Fin 0) n then Inr n else Inr (Fin 96))
      else Inr (Fin 96))"

text \<open>Lines 50 to 56.\<close>

definition contextOptionsOf :: "bool \<Rightarrow> jsnum \<Rightarrow> contextOptions" where
  "contextOptionsOf isPng d =
     (if isPng then \<lparr> deviceScaleFactor = Some (jsdiv d (Fin 96)), viewport = Some (1280, 800) \<rparr>
      else \<lparr> deviceScaleFactor = None, viewport = None \<rparr>)"

text \<open>Lines 105 to 111.\<close>

definition pdfOptionsOf :: "options \<Rightarrow> layout \<Rightarrow> pdfOptions" where
  "pdfOptionsOf opts l =
     (let m = jsor (options.margin opts) (Str ''10mm'')
      in \<lparr> printBackground = True,
           format = (if layout.paper l \<in> PAPER_SIZES then layout.paper l else ''A4''),
           landscape = isLandscape (options.orientation opts),
           margin = \<lparr> top = m, bottom = m, left = m, right = m \<rparr>,
           scale = finalScale l \<rparr>)"

text \<open>Lines 98 to 113: the emission; a failed resize of the viewport is ignored.\<close>

definition emit :: "backend \<Rightarrow> options \<Rightarrow> contentSize \<Rightarrow> layout \<Rightarrow> (error + buffer) \<times> event list" where
  "emit be opts cs l =
     (if truthy (png opts) then
        (let targetWidth = Math_max (Fin 1) (Math_ceil (jsmul (width cs) (finalScale l)));
             targetHeight =
               (if truthy (single opts)
                then Math_max (Fin 1) (Math_ceil (jsmul (height cs) (finalScale l)))
                else Math_max (Fin 1) (Math_ceil (availableHeightPx l)))
         in (screenshot be (truthy (single opts)),
             [SetViewportSize targetWidth targetHeight, Screenshot (truthy (single opts))]))
      else (pdf be (pdfOptionsOf opts l), [Pdf (pdfOptionsOf opts l)]))"

text \<open>
  The \<open>try\<close> block, lines 62 to 115: its completion (thrown error or returned object)
  and the calls it makes.  The wait of 100 milliseconds at line 63 changes neither.
\<close>

definition tryBlock :: "backend \<Rightarrow> string \<Rightarrow> options \<Rightarrow> (error + result) \<times> event list" where
  "tryBlock be html opts =
     (case setContent be html of
        Some e \<Rightarrow> (Inl e, [SetContent html])
      | None \<Rightarrow>
          (case evaluate be of
             Inl e \<Rightarrow> (Inl e, [SetContent html, Evaluate])
           | Inr cs \<Rightarrow>
               (case fitLayout opts cs of
                  Inl e \<Rightarrow> (Inl e, [SetContent html, Evaluate])
                | Inr l \<Rightarrow>
                    (case emit be opts cs l of
                       (Inl e, evs) \<Rightarrow> (Inl e, [SetContent html, Evaluate] @ evs)
                     | (Inr buf, evs) \<Rightarrow>
                         (Inr \<lparr> buffer = buf, scale = finalScale l, contentSize = cs,
                                paper = layout.paper l,
                                orientation = jsor (options.orientation opts) (Str ''portrait'') \<rparr>,
                          [SetContent html, Evaluate] @ evs)))))"

text \<open>
  The \<open>finally\<close> block, lines 116 to 119, after a \<open>try\<close> block that completed with \<open>c\<close>:
  an error thrown by \<open>page.close()\<close> or \<open>context.close()\<close> replaces \<open>c\<close>, and
  \<open>context.close()\<close> is not reached when \<open>page.close()\<close> throws.
\<close>

definition finallyBlock :: "backend \<Rightarrow> (error + result) \<Rightarrow> (error + result) \<times> event list" where
  "finallyBlock be c =
     (case pageClose be of
        Some e \<Rightarrow> (Inl e, [PageClose])
      | None \<Rightarrow>
          (case contextClose be of
             Some e \<Rightarrow> (Inl e, [PageClose, ContextClose])
           | None \<Rightarrow> (c, [PageClose, ContextClose])))"

text \<open>
  \<open>renderHtmlToBuffer\<close>, lines 46 to 120: the outcome, the \<open>browser\<close> flag afterwards and
  the calls made, given the backend's behaviour and the flag before.
\<close>

definition renderHtmlToBuffer ::
  "backend \<Rightarrow> bool \<Rightarrow> string \<Rightarrow> options \<Rightarrow> (error + result) \<times> bool \<times> event list" where
  "renderHtmlToBuffer be browser html opts =
     (case initBrowser be browser of
        (Some e, b, ev0) \<Rightarrow> (Inl e, b, ev0)
      | (None, b, ev0) \<Rightarrow>
          (case dpiOf (dpi opts) of
             Inl e \<Rightarrow> (Inl e, b, ev0)
           | Inr d \<Rightarrow>
               let co = contextOptionsOf (truthy (png opts)) d
               in (case newContext be co of
                     Some e \<Rightarrow> (Inl e, b, ev0 @ [NewContext co])
                   | None \<Rightarrow>
                       (case newPage be of
                          Some e \<Rightarrow> (Inl e, b, ev0 @ [NewContext co, NewPage])
                        | None \<Rightarrow>
                            let (c, ev1) = tryBlock be html opts;
                                (c', ev2) = finallyBlock be c
                            in (c', b, ev0 @ [NewContext co, NewPage] @ ev1 @ ev2)))))"

section \<open>Concrete inputs\<close>

text \<open>
  The default request (A4, portrait, margin 10mm, paginated document), a content box of
  800 by 600 pixels, and a backend on which every call succeeds and that measures this box.
\<close>

definition plainOptions :: options where
  "plainOptions = \<lparr> png = Undefined, dpi = Undefined, options.format = Str ''A4'',
     options.orientation = Str ''portrait'', options.margin = Str ''10mm'',
     single = Undefined, options.scale = Undefined \<rparr>"

definition box800x600 :: contentSize where
  "box800x600 = \<lparr> width = Fin 800, height = Fin 600 \<rparr>"

definition steadyBackend :: backend where
  "steadyBackend = \<lparr> launch = None, newContext = (\<lambda>_. None), newPage = None,
     setContent = (\<lambda>_. None), evaluate = Inr box800x600,
     screenshot = (\<lambda>_. Inr [137, 80, 78, 71]), pdf = (\<lambda>_. Inr [37, 80, 68, 70]),
     pageClose = None, contextClose = None \<rparr>"

text \<open>The layout of the default request for that box.\<close>

definition plainLayout :: layout where
  "plainLayout = \<lparr> layout.paper = ''A4'', paperWidthMm = Fin 210, paperHeightMm = Fin 297,
     marginMm = Fin 10, availableWidthPx = Fin (91200 / 127),
     availableHeightPx = Fin (132960 / 127), fitScale = Fin (114 / 127),
     chosenScale = Fin (114 / 127), finalScale = Fin (114 / 127) \<rparr>"

text \<open>The object the default request returns on that backend.\<close>

definition plainResult :: result where
  "plainResult = \<lparr> buffer = [37, 80, 68, 70], result.scale = Fin (114 / 127),
     contentSize = box800x600, result.paper = ''A4'', result.orientation = Str ''portrait'' \<rparr>"

text \<open>Single-page mode on a tall content box of 400 by 2000 pixels.\<close>

definition tallOptions :: options where
  "tallOptions = plainOptions \<lparr> single := Bool True \<rparr>"

definition tallLayout :: layout where
  "tallLayout = \<lparr> layout.paper = ''A4'', paperWidthMm = Fin 210, paperHeightMm = Fin 297,
     marginMm = Fin 10, availableWidthPx = Fin (91200 / 127),
     availableHeightPx = Fin (132960 / 127), fitScale = Fin (1662 / 3175),
     chosenScale = Fin (1662 / 3175), finalScale = Fin (1662 / 3175) \<rparr>"

text \<open>Manual scales 0.5 and 5.\<close>

definition halfOptions :: options where
  "halfOptions = plainOptions \<lparr> options.scale := Num (Fin (1 / 2)) \<rparr>"

definition fiveOptions :: options where
  "fiveOptions = plainOptions \<lparr> options.scale := Num (Fin 5) \<rparr>"

text \<open>A manual scale of 0.05, below the range.\<close>

definition tinyOptions :: options where
  "tinyOptions = plainOptions \<lparr> options.scale := Num (Fin (1 / 20)) \<rparr>"

text \<open>
  Backends on which the content load times out, on which \<open>page.close()\<close> fails, and
  on which both happen.
\<close>

definition timeoutBackend :: backend where
  "timeoutBackend = steadyBackend \<lparr> setContent := (\<lambda>_. Some TimeoutError) \<rparr>"

definition closeFailsBackend :: backend where
  "closeFailsBackend = steadyBackend \<lparr> pageClose := Some (EngineError ''Target closed'') \<rparr>"

definition timeoutCloseFailsBackend :: backend where
  "timeoutCloseFailsBackend = closeFailsBackend \<lparr> setContent := (\<lambda>_. Some TimeoutError) \<rparr>"

text \<open>A backend on which the page cannot be created.\<close>

definition noPageBackend :: backend where
  "noPageBackend = steadyBackend \<lparr> newPage := Some (EngineError ''Target crashed'') \<rparr>"

text \<open>An unknown paper name.\<close>

definition b5Options :: options where
  "b5Options = plainOptions \<lparr> options.format := Str ''B5'' \<rparr>"

text \<open>The object returned for the default request as an image.\<close>

definition pngResult :: result where
  "pngResult = plainResult \<lparr> buffer := [137, 80, 78, 71] \<rparr>"

text \<open>
  A5 written in lower case with an orientation in some spelling, and its layout for the
  box of 800 by 600 pixels on paper of the given width and height.
\<close>

definition a5Options :: "string \<Rightarrow> options" where
  "a5Options ori = plainOptions \<lparr> options.format := Str ''a5'', options.orientation := Str ori \<rparr>"

definition a5Layout :: "real \<Rightarrow> real \<Rightarrow> layout" where
  "a5Layout w h = \<lparr> layout.paper = ''A5'', paperWidthMm = Fin w, paperHeightMm = Fin h,
     marginMm = Fin 10,
     availableWidthPx = Fin ((w - 20) * (480 / 127)),
     availableHeightPx = Fin ((h - 20) * (480 / 127)),
     fitScale = Fin ((w - 20) * (480 / 127) / 800),
     chosenScale = Fin ((w - 20) * (480 / 127) / 800),
     finalScale = Fin ((w - 20) * (480 / 127) / 800) \<rparr>"

section \<open>Facts about numbers, clamps and the layout\<close>

lemma jsle_Fin: "jsle (Fin a) (Fin b) = (a \<le> b)"
  by (auto simp: jsle_def)

lemma safetyClamp_bounds:
  "sc \<noteq> NaN \<Longrightarrow> jsle (Fin (1 / 10)) (safetyClamp sc) \<and> jsle (safetyClamp sc) (Fin 2)"
  by (cases sc) (auto simp: safetyClamp_def jsle_def Let_def)

lemma safetyClamp_id:
  "jsle (Fin (1 / 10)) sc \<Longrightarrow> jsle sc (Fin 2) \<Longrightarrow> safetyClamp sc = sc"
  by (cases sc) (auto simp: safetyClamp_def jsle_def Let_def)

lemma clampScale_bounds:
  "clampScale (Some n) = Some cl \<Longrightarrow> jsle (Fin (1 / 10)) cl \<and> jsle cl (Fin 2)"
  by (cases n) (auto simp: isNaN_def jsle_def split: if_splits)

lemma manualOverride_cases:
  "manualOverride v sc = Inr s2 \<Longrightarrow> s2 = sc \<or> (jsle (Fin (1 / 10)) s2 \<and> jsle s2 (Fin 2))"
  unfolding manualOverride_def
  by (auto simp del: clampScale.simps split: if_splits sum.splits option.splits
        dest: clampScale_bounds)

lemma pxPerMm_val: "pxPerMm = Fin (480 / 127)"
  by (simp add: pxPerMm_def)

lemma availablePx_ge1:
  "m \<noteq> NaN \<Longrightarrow> jsle (Fin 1) (availablePx (Fin p) m)"
  by (cases m) (auto simp: availablePx_def pxPerMm_val Math_max_def jssub_def jsle_def infOfSign_def)

lemma marginToMm_not_NaN: "marginToMm v = Inr m \<Longrightarrow> m \<noteq> NaN"
  by (auto simp: marginToMm_def numOr_def truthyNum_def split: sum.splits if_splits)

lemma jsdiv_pos:
  "jsle (Fin 1) a \<Longrightarrow> 0 < w \<Longrightarrow> jslt (Fin 0) (jsdiv a (Fin w))"
  by (cases a) (auto simp: jsle_def)

lemma jslt_not_NaN: "jslt a b \<Longrightarrow> a \<noteq> NaN \<and> b \<noteq> NaN"
  by (cases a; cases b) auto

lemma Math_min_le:
  "a \<noteq> NaN \<Longrightarrow> b \<noteq> NaN \<Longrightarrow> jsle (Math_min a b) a \<and> jsle (Math_min a b) b"
  by (cases a; cases b) (auto simp: Math_min_def jsle_def)

lemma Math_min_not_NaN: "a \<noteq> NaN \<Longrightarrow> b \<noteq> NaN \<Longrightarrow> Math_min a b \<noteq> NaN"
  by (auto simp: Math_min_def)

text \<open>What a successful layout consists of.\<close>

lemma fitLayout_InrD:
  assumes "fitLayout opts cs = Inr l"
  shows "paperOf (options.format opts) = Inr (layout.paper l)"
    and "marginToMm (jsor (options.margin opts) (Str ''10mm'')) = Inr (marginMm l)"
    and "paperWidthMm l = Fin (if isLandscape (options.orientation opts)
           then snd (paperMm (layout.paper l)) else fst (paperMm (layout.paper l)))"
    and "paperHeightMm l = Fin (if isLandscape (options.orientation opts)
           then fst (paperMm (layout.paper l)) else snd (paperMm (layout.paper l)))"
    and "availableWidthPx l = availablePx (paperWidthMm l) (marginMm l)"
    and "availableHeightPx l = availablePx (paperHeightMm l) (marginMm l)"
    and "fitScale l = (if truthy (single opts)
           then Math_min (jsdiv (availableWidthPx l) (width cs)) (jsdiv (availableHeightPx l) (height cs))
           else jsdiv (availableWidthPx l) (width cs))"
    and "manualOverride (options.scale opts) (fitScale l) = Inr (chosenScale l)"
    and "finalScale l = safetyClamp (chosenScale l)"
  using assms unfolding fitLayout_def
  by (auto simp: Let_def split: sum.splits prod.splits if_splits)

text \<open>The two candidate scales of a content box with positive sides are numbers.\<close>

lemma candidates_not_NaN:
  assumes l: "fitLayout opts cs = Inr l" and w: "0 < w" and h: "0 < h"
  shows "jsdiv (availableWidthPx l) (Fin w) \<noteq> NaN" and "jsdiv (availableHeightPx l) (Fin h) \<noteq> NaN"
proof -
  have "marginMm l \<noteq> NaN"
    using fitLayout_InrD(2) [OF l] by (rule marginToMm_not_NaN)
  then have "jsle (Fin 1) (availableWidthPx l)" "jsle (Fin 1) (availableHeightPx l)"
    unfolding fitLayout_InrD(5,6) [OF l] fitLayout_InrD(3,4) [OF l] by (rule availablePx_ge1)+
  then show "jsdiv (availableWidthPx l) (Fin w) \<noteq> NaN" "jsdiv (availableHeightPx l) (Fin h) \<noteq> NaN"
    using w h jsdiv_pos jslt_not_NaN by blast+
qed

lemma fitScale_not_NaN:
  assumes l: "fitLayout opts \<lparr>width = Fin w, height = Fin h\<rparr> = Inr l" and w: "0 < w" and h: "0 < h"
  shows "fitScale l \<noteq> NaN"
  using candidates_not_NaN [OF l w h] fitLayout_InrD(7) [OF l]
  by (simp add: Math_min_not_NaN)

lemma manualOverride_falsy: "\<not> truthy v \<Longrightarrow> manualOverride v sc = Inr sc"
  by (simp add: manualOverride_def)

text \<open>
  The layout computation throws in three cases only: a truthy paper name that is not a
  string, a truthy margin that is neither a string nor a number, and a manual scale that is
  an object without a primitive value.
\<close>

lemma fitLayout_returns:
  assumes "\<not> truthy (options.format opts) \<or> (\<exists>s. options.format opts = Str s)"
    and "\<not> truthy (options.margin opts) \<or> (\<exists>s. options.margin opts = Str s)
         \<or> (\<exists>n. options.margin opts = Num n)"
    and "options.scale opts \<noteq> Obj None"
  shows "\<exists>l. fitLayout opts cs = Inr l"
proof -
  have "\<exists>p. paperOf (options.format opts) = Inr p"
    using assms(1) by (auto simp: paperOf_def jsor_def)
  then obtain p where p: "paperOf (options.format opts) = Inr p" ..
  have "\<exists>m. marginToMm (jsor (options.margin opts) (Str ''10mm'')) = Inr m"
    using assms(2) by (auto simp: marginToMm_def jsor_def)
  then obtain m where m: "marginToMm (jsor (options.margin opts) (Str ''10mm'')) = Inr m" ..
  have "\<exists>n. Number (options.scale opts) = Inr n"
    using assms(3) by (cases "options.scale opts" rule: Number.cases) auto
  then have s: "manualOverride (options.scale opts) sc \<noteq> Inl e" for sc e
    by (auto simp: manualOverride_def simp del: clampScale.simps split: option.splits if_splits)
  show ?thesis
    unfolding fitLayout_def p m
    by (simp add: Let_def s split: prod.splits sum.splits)
qed

text \<open>Definitions to unfold when a run is evaluated on concrete inputs.\<close>

lemmas number_defs =
  jsor_def numOr_def truthyNum_def Math_max_def Math_min_def jssub_def infOfSign_def isNaN_def
  jsle_def pxPerMm_def

lemmas string_defs =
  toUpperCase_def upperChar_def char_of_def endsWith_def sliceOffTwo_def parseFloat_def
  signedDecimal_def unsignedDecimal_def isPrefix_def isDigit_def isWhite_def digitsVal_def
  digitVal_def exponentPart_def scaleByPow10_def trim_def stringToNumber_def nonDecimal_def
  baseDigit_def

lemmas layout_defs =
  fitLayout_def paperOf_def paperMm_def isLandscape_def marginToMm_def availablePx_def
  manualOverride_def safetyClamp_def Let_def

lemmas run_defs =
  renderHtmlToBuffer_def initBrowser_def dpiOf_def contextOptionsOf_def tryBlock_def
  finallyBlock_def emit_def pdfOptionsOf_def PAPER_SIZES_def

lemma plain_layout: "fitLayout plainOptions box800x600 = Inr plainLayout"
  by (simp add: plainOptions_def box800x600_def plainLayout_def layout_defs number_defs
      string_defs)

lemma plain_run:
  "fst (renderHtmlToBuffer steadyBackend False ''<p>hi</p>'' plainOptions) = Inr plainResult"
  by (simp add: run_defs steadyBackend_def plain_layout plainResult_def plainLayout_def)
    (simp add: plainOptions_def number_defs)

section \<open>What a run that returns an object went through\<close>

lemma tryBlock_InrD:
  assumes "fst (tryBlock be html opts) = Inr r"
  obtains l where
    "setContent be html = None"
    "evaluate be = Inr (result.contentSize r)"
    "fitLayout opts (result.contentSize r) = Inr l"
    "result.scale r = finalScale l"
    "result.paper r = layout.paper l"
    "result.orientation r = jsor (options.orientation opts) (Str ''portrait'')"
    "fst (emit be opts (result.contentSize r) l) = Inr (result.buffer r)"
  using assms unfolding tryBlock_def
  by (auto split: option.splits sum.splits prod.splits)

lemma finallyBlock_InrD:
  "fst (finallyBlock be c) = Inr r \<Longrightarrow> c = Inr r \<and> pageClose be = None \<and> contextClose be = None"
  unfolding finallyBlock_def by (auto split: option.splits)

lemma renderHtmlToBuffer_InrD:
  assumes "fst (renderHtmlToBuffer be browser html opts) = Inr r"
  shows "fst (tryBlock be html opts) = Inr r \<and> pageClose be = None \<and> contextClose be = None"
  using assms unfolding renderHtmlToBuffer_def
  by (auto simp: Let_def split: option.splits sum.splits prod.splits dest: finallyBlock_InrD
      dest!: arg_cong[where f=fst])

text \<open>
  A run in which the browser is there and the context and the page are created consists
  of the \<open>try\<close> block and the \<open>finally\<close> block.
\<close>

lemma renderHtmlToBuffer_run:
  assumes "initBrowser be browser = (None, b, ev0)"
    and "dpiOf (dpi opts) = Inr d"
    and "newContext be (contextOptionsOf (truthy (png opts)) d) = None"
    and "newPage be = None"
  shows "renderHtmlToBuffer be browser html opts =
      (fst (finallyBlock be (fst (tryBlock be html opts))), b,
       ev0 @ [NewContext (contextOptionsOf (truthy (png opts)) d), NewPage]
         @ snd (tryBlock be html opts) @ snd (finallyBlock be (fst (tryBlock be html opts))))"
  unfolding renderHtmlToBuffer_def assms(1,2)
  by (simp add: assms(3,4) Let_def split: prod.splits)

lemma renderHtmlToBuffer_session:
  assumes "initBrowser be browser = (None, b, ev0)"
    and "dpiOf (dpi opts) = Inr d"
    and "newContext be (contextOptionsOf (truthy (png opts)) d) = None"
    and "newPage be = None" and "pageClose be = None" and "contextClose be = None"
  shows "fst (renderHtmlToBuffer be browser html opts) = fst (tryBlock be html opts)"
  unfolding renderHtmlToBuffer_run [OF assms(1-4)]
  by (simp add: finallyBlock_def assms(5,6))

section \<open>The scale\<close>

text \<open>
  C1.  Whenever \<open>renderHtmlToBuffer\<close> returns an object for a content box whose width and
  height are between 1 and 100000 pixels, the scale in that object is at least 0.1 and at
  most 2, whatever the paper name, the orientation, the margin and the manual scale are:
  the value left by the computation or by the manual override is never \<open>NaN\<close>, and lines
  95 and 96 clamp it.
\<close>

theorem scale_within_bounds:
  assumes run: "fst (renderHtmlToBuffer be browser html opts) = Inr r"
    and cs: "result.contentSize r = \<lparr>width = Fin w, height = Fin h\<rparr>"
    and w: "1 \<le> w" "w \<le> 100000" and h: "1 \<le> h" "h \<le> 100000"
  shows "jsle (Fin (1 / 10)) (result.scale r) \<and> jsle (result.scale r) (Fin 2)"
proof -
  from run have "fst (tryBlock be html opts) = Inr r"
    by (simp add: renderHtmlToBuffer_InrD)
  then obtain l where l: "fitLayout opts (result.contentSize r) = Inr l"
    and sc: "result.scale r = finalScale l"
    by (rule tryBlock_InrD)
  from l have fs: "fitScale l \<noteq> NaN"
    unfolding cs using w h by (intro fitScale_not_NaN) auto
  note mo = fitLayout_InrD(8) [OF l] and fin = fitLayout_InrD(9) [OF l]
  from manualOverride_cases [OF mo] fs have "chosenScale l \<noteq> NaN"
    by (auto simp: jsle_def)
  then show ?thesis unfolding sc fin by (rule safetyClamp_bounds)
qed

theorem scale_within_bounds_witness:
  "fst (renderHtmlToBuffer steadyBackend False ''<p>hi</p>'' plainOptions) = Inr plainResult
   \<and> result.contentSize plainResult = \<lparr>width = Fin 800, height = Fin 600\<rparr>
   \<and> jsle (Fin (1 / 10)) (result.scale plainResult) \<and> jsle (result.scale plainResult) (Fin 2)"
proof -
  have run: "fst (renderHtmlToBuffer steadyBackend False ''<p>hi</p>'' plainOptions) = Inr plainResult"
    by (rule plain_run)
  have cs: "result.contentSize plainResult = \<lparr>width = Fin 800, height = Fin 600\<rparr>"
    by (simp add: plainResult_def box800x600_def)
  have "jsle (Fin (1 / 10)) (result.scale plainResult) \<and> jsle (result.scale plainResult) (Fin 2)"
    by (rule scale_within_bounds [OF run cs]) simp_all
  with run cs show ?thesis by blast
qed

lemma tall_layout:
  "fitLayout tallOptions \<lparr>width = Fin 400, height = Fin 2000\<rparr> = Inr tallLayout"
  by (simp add: tallOptions_def tallLayout_def plainOptions_def layout_defs number_defs string_defs)

text \<open>
  C2.  In single-page mode with no manual scale (the option is absent, \<open>null\<close> or any
  other falsy value), for a content box with positive width and height, the scale before
  the comparisons of lines 95 and 96 is the minimum of the width-fit candidate
  \<open>availableWidthPx / width\<close> and the height-fit candidate \<open>availableHeightPx / height\<close>,
  so it exceeds neither of them.
\<close>

theorem single_page_scale_is_minimum:
  assumes single: "truthy (single opts)"
    and manual: "\<not> truthy (options.scale opts)"
    and w: "0 < w" and h: "0 < h"
    and l: "fitLayout opts \<lparr>width = Fin w, height = Fin h\<rparr> = Inr l"
  shows "chosenScale l =
           Math_min (jsdiv (availableWidthPx l) (Fin w)) (jsdiv (availableHeightPx l) (Fin h))
         \<and> jsle (chosenScale l) (jsdiv (availableWidthPx l) (Fin w))
         \<and> jsle (chosenScale l) (jsdiv (availableHeightPx l) (Fin h))"
proof -
  let ?sw = "jsdiv (availableWidthPx l) (Fin w)" and ?sh = "jsdiv (availableHeightPx l) (Fin h)"
  from fitLayout_InrD(8) [OF l] manual have "chosenScale l = fitScale l"
    by (simp add: manualOverride_falsy)
  with fitLayout_InrD(7) [OF l] single have eq: "chosenScale l = Math_min ?sw ?sh"
    by simp
  have "?sw \<noteq> NaN" "?sh \<noteq> NaN"
    using candidates_not_NaN [OF l w h] .
  then have "jsle (Math_min ?sw ?sh) ?sw \<and> jsle (Math_min ?sw ?sh) ?sh"
    by (rule Math_min_le)
  with eq show ?thesis by simp
qed

theorem single_page_scale_is_minimum_witness:
  "truthy (single tallOptions) \<and> \<not> truthy (options.scale tallOptions)
   \<and> fitLayout tallOptions \<lparr>width = Fin 400, height = Fin 2000\<rparr> = Inr tallLayout
   \<and> chosenScale tallLayout =
        Math_min (jsdiv (availableWidthPx tallLayout) (Fin 400))
                 (jsdiv (availableHeightPx tallLayout) (Fin 2000))
   \<and> jsle (chosenScale tallLayout) (jsdiv (availableWidthPx tallLayout) (Fin 400))
   \<and> jsle (chosenScale tallLayout) (jsdiv (availableHeightPx tallLayout) (Fin 2000))"
proof -
  have single: "truthy (single tallOptions)"
    and manual: "\<not> truthy (options.scale tallOptions)"
    by (simp_all add: tallOptions_def plainOptions_def)
  have pos: "(0::real) < 400" "(0::real) < 2000" by simp_all
  from single_page_scale_is_minimum [OF single manual pos tall_layout] single manual tall_layout
  show ?thesis by blast
qed

lemma half_run:
  "fst (renderHtmlToBuffer steadyBackend False ''<p>hi</p>'' halfOptions) =
     Inr (plainResult \<lparr> result.scale := Fin (1 / 2) \<rparr>)"
  by (simp add: run_defs steadyBackend_def plainResult_def halfOptions_def plainOptions_def
      box800x600_def layout_defs number_defs string_defs)

lemma five_run:
  "fst (renderHtmlToBuffer steadyBackend False ''<p>hi</p>'' fiveOptions) =
     Inr (plainResult \<lparr> result.scale := Fin 2 \<rparr>)"
  by (simp add: run_defs steadyBackend_def plainResult_def fiveOptions_def plainOptions_def
      box800x600_def layout_defs number_defs string_defs)

text \<open>
  C3.  In every object \<open>renderHtmlToBuffer\<close> returns, whatever the content box, the paper
  and the margin: a manual scale that is a number between 0.1 and 2 is the resulting
  scale, in particular 0.5 gives 0.5; and the manual scale 5 gives 2, not 5.
\<close>

theorem manual_scale_overrides:
  assumes run: "fst (renderHtmlToBuffer be browser html opts) = Inr r"
  shows "(options.scale opts = Num (Fin s) \<and> 1 / 10 \<le> s \<and> s \<le> 2 \<longrightarrow> result.scale r = Fin s)
       \<and> (options.scale opts = Num (Fin (1 / 2)) \<longrightarrow> result.scale r = Fin (1 / 2))
       \<and> (options.scale opts = Num (Fin 5) \<longrightarrow> result.scale r = Fin 2)"
proof -
  from run have "fst (tryBlock be html opts) = Inr r"
    by (simp add: renderHtmlToBuffer_InrD)
  then obtain l where l: "fitLayout opts (result.contentSize r) = Inr l"
    and sc: "result.scale r = finalScale l"
    by (rule tryBlock_InrD)
  note mo = fitLayout_InrD(8) [OF l] and fin = fitLayout_InrD(9) [OF l]
  have valid: "result.scale r = Fin t"
    if "options.scale opts = Num (Fin t)" "1 / 10 \<le> t" "t \<le> 2" for t
  proof -
    have "chosenScale l = Fin t"
      using mo that by (auto simp: manualOverride_def truthyNum_def isNaN_def split: if_splits)
    with that show ?thesis
      unfolding sc fin by (simp add: safetyClamp_id jsle_Fin)
  qed
  have big: "result.scale r = Fin 2" if "options.scale opts = Num (Fin 5)"
  proof -
    have "chosenScale l = Fin 2"
      using mo that by (auto simp: manualOverride_def truthyNum_def isNaN_def split: if_splits)
    then show ?thesis
      unfolding sc fin by (simp add: safetyClamp_id jsle_Fin)
  qed
  from valid [of s] valid [of "1 / 2"] big show ?thesis by simp
qed

theorem manual_scale_overrides_witness:
  "fst (renderHtmlToBuffer steadyBackend False ''<p>hi</p>'' halfOptions) =
     Inr (plainResult \<lparr> result.scale := Fin (1 / 2) \<rparr>)
   \<and> options.scale halfOptions = Num (Fin (1 / 2))
   \<and> result.scale (plainResult \<lparr> result.scale := Fin (1 / 2) \<rparr>) = Fin (1 / 2)
   \<and> fst (renderHtmlToBuffer steadyBackend False ''<p>hi</p>'' fiveOptions) =
     Inr (plainResult \<lparr> result.scale := Fin 2 \<rparr>)
   \<and> options.scale fiveOptions = Num (Fin 5)
   \<and> result.scale (plainResult \<lparr> result.scale := Fin 2 \<rparr>) = Fin 2"
proof -
  have h: "options.scale halfOptions = Num (Fin (1 / 2))"
    and f: "options.scale fiveOptions = Num (Fin 5)"
    by (simp_all add: halfOptions_def fiveOptions_def)
  from manual_scale_overrides [OF half_run, of "1 / 2"] manual_scale_overrides [OF five_run, of 5]
    h f half_run five_run
  show ?thesis by blast
qed

section \<open>Manual scales that are not valid\<close>

lemma tiny_run:
  "fst (renderHtmlToBuffer steadyBackend False ''<p>hi</p>'' tinyOptions) =
     Inr (plainResult \<lparr> result.scale := Fin (1 / 10) \<rparr>)"
  by (simp add: run_defs steadyBackend_def plainResult_def tinyOptions_def plainOptions_def
      box800x600_def layout_defs number_defs string_defs)

lemma manualOverride_NaN: "Number v = Inr NaN \<Longrightarrow> manualOverride v sc = Inr sc"
  by (simp add: manualOverride_def isNaN_def)

lemma manualOverride_low:
  "truthy v \<Longrightarrow> Number v = Inr n \<Longrightarrow> jslt n (Fin (1 / 10)) \<Longrightarrow> manualOverride v sc = Inr (Fin (1 / 10))"
  by (cases n) (auto simp: manualOverride_def isNaN_def truthyNum_def)

lemma manualOverride_high:
  "truthy v \<Longrightarrow> Number v = Inr n \<Longrightarrow> jslt (Fin 2) n \<Longrightarrow> manualOverride v sc = Inr (Fin 2)"
  by (cases n) (auto simp: manualOverride_def isNaN_def truthyNum_def)

text \<open>The layout reads five options, the manual scale only through \<open>manualOverride\<close>.\<close>

lemma fitLayout_cong:
  assumes "options.format a = options.format b" "options.orientation a = options.orientation b"
    "options.margin a = options.margin b" "truthy (single a) = truthy (single b)"
    "\<And>sc. manualOverride (options.scale a) sc = manualOverride (options.scale b) sc"
  shows "fitLayout a cs = fitLayout b cs"
  unfolding fitLayout_def assms by (rule refl)

lemma fitLayout_fallback:
  assumes "\<not> truthy v \<or> Number v = Inr NaN"
  shows "fitLayout (opts \<lparr> options.scale := v \<rparr>) cs = fitLayout (opts \<lparr> options.scale := Undefined \<rparr>) cs"
  using assms by (intro fitLayout_cong) (auto simp: manualOverride_falsy manualOverride_NaN)

lemma safetyClamp_bound:
  "safetyClamp (Fin (1 / 10)) = Fin (1 / 10)" "safetyClamp (Fin 2) = Fin 2"
  by (simp_all add: safetyClamp_def)

lemma fitLayout_clamped:
  assumes base: "fitLayout (opts \<lparr> options.scale := Undefined \<rparr>) cs = Inr l0"
    and mo: "\<And>sc. manualOverride v sc = Inr c" and c: "safetyClamp c = c"
  shows "fitLayout (opts \<lparr> options.scale := v \<rparr>) cs = Inr (l0 \<lparr> chosenScale := c, finalScale := c \<rparr>)"
  using base unfolding fitLayout_def
  by (auto simp: Let_def mo c split: sum.splits prod.splits)

text \<open>Besides the layout, a run reads the options \<open>png\<close>, \<open>dpi\<close>, \<open>single\<close>, \<open>margin\<close>
  and \<open>orientation\<close>.\<close>

lemma emit_cong:
  assumes "png a = png b" "single a = single b" "options.margin a = options.margin b"
    "options.orientation a = options.orientation b"
  shows "emit be a = emit be b"
  unfolding emit_def pdfOptionsOf_def assms by (rule refl)

lemma tryBlock_cong:
  assumes "fitLayout a = fitLayout b" "emit be a = emit be b"
    "options.orientation a = options.orientation b"
  shows "tryBlock be html a = tryBlock be html b"
  unfolding tryBlock_def assms by (rule refl)

lemma renderHtmlToBuffer_cong:
  assumes "png a = png b" "dpi a = dpi b" "tryBlock be html a = tryBlock be html b"
  shows "renderHtmlToBuffer be browser html a = renderHtmlToBuffer be browser html b"
  unfolding renderHtmlToBuffer_def assms by (rule refl)

text \<open>
  C4.  The claim that a manual scale outside the range 0.1 to 2 falls back to the computed
  scale fails: on the default request the computed scale is 114/127, the manual scale 5
  gives 2 and the manual scale 0.05 gives 0.1.
\<close>

theorem manual_scale_out_of_range_counterexample:
  "options.scale fiveOptions = Num (Fin 5)
   \<and> fst (renderHtmlToBuffer steadyBackend False ''<p>hi</p>''
            (fiveOptions \<lparr> options.scale := Undefined \<rparr>)) = Inr plainResult
   \<and> result.scale plainResult = Fin (114 / 127)
   \<and> fst (renderHtmlToBuffer steadyBackend False ''<p>hi</p>'' fiveOptions) =
        Inr (plainResult \<lparr> result.scale := Fin 2 \<rparr>)
   \<and> options.scale tinyOptions = Num (Fin (1 / 20))
   \<and> fst (renderHtmlToBuffer steadyBackend False ''<p>hi</p>'' tinyOptions) =
        Inr (plainResult \<lparr> result.scale := Fin (1 / 10) \<rparr>)"
proof -
  have "fiveOptions \<lparr> options.scale := Undefined \<rparr> = plainOptions"
    by (simp add: fiveOptions_def plainOptions_def)
  then show ?thesis
    using plain_run five_run tiny_run
    by (simp add: fiveOptions_def tinyOptions_def plainResult_def)
qed

text \<open>
  C4, as amended.  A manual scale that is falsy (absent, \<open>null\<close>, 0, the empty string) or
  that \<open>Number\<close> turns into \<open>NaN\<close> leaves the run exactly as it is without a manual
  scale, so nothing is rejected because of it.  A truthy manual scale whose number is below
  0.1 or above 2 does not fall back: the layout is computed all the same, with 0.1 or 2 as
  the scale.
\<close>

theorem manual_scale_fallback_or_clamp:
  "(\<not> truthy v \<or> Number v = Inr NaN \<longrightarrow>
      renderHtmlToBuffer be browser html (opts \<lparr> options.scale := v \<rparr>) =
      renderHtmlToBuffer be browser html (opts \<lparr> options.scale := Undefined \<rparr>))
   \<and> (fitLayout (opts \<lparr> options.scale := Undefined \<rparr>) cs = Inr l0 \<and> truthy v \<and> Number v = Inr n
        \<and> jslt n (Fin (1 / 10)) \<longrightarrow>
      fitLayout (opts \<lparr> options.scale := v \<rparr>) cs =
        Inr (l0 \<lparr> chosenScale := Fin (1 / 10), finalScale := Fin (1 / 10) \<rparr>))
   \<and> (fitLayout (opts \<lparr> options.scale := Undefined \<rparr>) cs = Inr l0 \<and> truthy v \<and> Number v = Inr n
        \<and> jslt (Fin 2) n \<longrightarrow>
      fitLayout (opts \<lparr> options.scale := v \<rparr>) cs =
        Inr (l0 \<lparr> chosenScale := Fin 2, finalScale := Fin 2 \<rparr>))"
proof (intro conjI impI)
  assume "\<not> truthy v \<or> Number v = Inr NaN"
  then have "fitLayout (opts \<lparr> options.scale := v \<rparr>) = fitLayout (opts \<lparr> options.scale := Undefined \<rparr>)"
    by (intro ext fitLayout_fallback)
  then have "tryBlock be html (opts \<lparr> options.scale := v \<rparr>) =
             tryBlock be html (opts \<lparr> options.scale := Undefined \<rparr>)"
    by (intro tryBlock_cong emit_cong) simp_all
  then show "renderHtmlToBuffer be browser html (opts \<lparr> options.scale := v \<rparr>) =
      renderHtmlToBuffer be browser html (opts \<lparr> options.scale := Undefined \<rparr>)"
    by (intro renderHtmlToBuffer_cong) simp_all
next
  assume "fitLayout (opts \<lparr> options.scale := Undefined \<rparr>) cs = Inr l0 \<and> truthy v \<and> Number v = Inr n
        \<and> jslt n (Fin (1 / 10))"
  then show "fitLayout (opts \<lparr> options.scale := v \<rparr>) cs =
        Inr (l0 \<lparr> chosenScale := Fin (1 / 10), finalScale := Fin (1 / 10) \<rparr>)"
    by (intro fitLayout_clamped) (auto simp: manualOverride_low safetyClamp_bound)
next
  assume "fitLayout (opts \<lparr> options.scale := Undefined \<rparr>) cs = Inr l0 \<and> truthy v \<and> Number v = Inr n
        \<and> jslt (Fin 2) n"
  then show "fitLayout (opts \<lparr> options.scale := v \<rparr>) cs =
        Inr (l0 \<lparr> chosenScale := Fin 2, finalScale := Fin 2 \<rparr>)"
    by (intro fitLayout_clamped) (auto simp: manualOverride_high safetyClamp_bound)
qed

theorem manual_scale_fallback_or_clamp_witness:
  "Number (Str ''abc'') = Inr NaN
   \<and> renderHtmlToBuffer steadyBackend False ''<p>hi</p>'' (plainOptions \<lparr> options.scale := Str ''abc'' \<rparr>) =
     renderHtmlToBuffer steadyBackend False ''<p>hi</p>'' (plainOptions \<lparr> options.scale := Undefined \<rparr>)
   \<and> fitLayout (plainOptions \<lparr> options.scale := Undefined \<rparr>) box800x600 = Inr plainLayout
   \<and> truthy (Num (Fin (1 / 20))) \<and> Number (Num (Fin (1 / 20))) = Inr (Fin (1 / 20))
   \<and> jslt (Fin (1 / 20)) (Fin (1 / 10))
   \<and> fitLayout (plainOptions \<lparr> options.scale := Num (Fin (1 / 20)) \<rparr>) box800x600 =
       Inr (plainLayout \<lparr> chosenScale := Fin (1 / 10), finalScale := Fin (1 / 10) \<rparr>)
   \<and> truthy (Num (Fin 5)) \<and> Number (Num (Fin 5)) = Inr (Fin 5) \<and> jslt (Fin 2) (Fin 5)
   \<and> fitLayout (plainOptions \<lparr> options.scale := Num (Fin 5) \<rparr>) box800x600 =
       Inr (plainLayout \<lparr> chosenScale := Fin 2, finalScale := Fin 2 \<rparr>)"
proof -
  have nan: "Number (Str ''abc'') = Inr NaN"
    by (simp add: string_defs)
  have base: "fitLayout (plainOptions \<lparr> options.scale := Undefined \<rparr>) box800x600 = Inr plainLayout"
    using plain_layout by (simp add: plainOptions_def)
  have low: "truthy (Num (Fin (1 / 20)))" "Number (Num (Fin (1 / 20))) = Inr (Fin (1 / 20))"
      "jslt (Fin (1 / 20)) (Fin (1 / 10))"
    and high: "truthy (Num (Fin 5))" "Number (Num (Fin 5)) = Inr (Fin 5)" "jslt (Fin 2) (Fin 5)"
    by (simp_all add: truthyNum_def)
  note inst = manual_scale_fallback_or_clamp
  from inst [of "Str ''abc''" steadyBackend False "''<p>hi</p>''" plainOptions]
    inst [of "Num (Fin (1 / 20))" _ _ _ plainOptions box800x600 plainLayout "Fin (1 / 20)"]
    inst [of "Num (Fin 5)" _ _ _ plainOptions box800x600 plainLayout "Fin 5"]
    nan base low high
  show ?thesis by blast
qed

section \<open>Session teardown\<close>

lemma tryBlock_events:
  "PageClose \<notin> set (snd (tryBlock be html opts)) \<and> ContextClose \<notin> set (snd (tryBlock be html opts))"
  unfolding tryBlock_def emit_def
  by (auto split: option.splits sum.splits prod.splits if_splits)

lemma initBrowser_events:
  "initBrowser be browser = (r, b, ev0) \<Longrightarrow> PageClose \<notin> set ev0 \<and> ContextClose \<notin> set ev0"
  unfolding initBrowser_def by (auto split: if_splits option.splits)

lemma count_list_notin: "x \<notin> set xs \<Longrightarrow> count_list xs x = 0"
  by (induction xs) auto

lemma plain_tryBlock:
  "evaluate be = Inr box800x600 \<Longrightarrow> setContent be ''<p>hi</p>'' = None \<Longrightarrow>
   pdf be (pdfOptionsOf plainOptions plainLayout) = Inr [37, 80, 68, 70] \<Longrightarrow>
   tryBlock be ''<p>hi</p>'' plainOptions =
     (Inr plainResult, [SetContent ''<p>hi</p>'', Evaluate, Pdf (pdfOptionsOf plainOptions plainLayout)])"
  by (simp add: tryBlock_def emit_def plain_layout plainResult_def)
    (simp add: plainOptions_def plainLayout_def jsor_def)

text \<open>
  C5.  The claim that a failure of the teardown is logged and swallowed, and that the
  session is released on every exit path, fails.  When \<open>page.close()\<close> throws, its error
  is the outcome of the request, \<open>context.close()\<close> is not called and nothing is logged:
  after a successful emission the returned object is lost, and after a content-load
  timeout the timeout error is replaced.  When \<open>context.newPage()\<close> throws, before the
  \<open>try\<close> block, the context is not closed either.
\<close>

theorem teardown_failure_counterexample:
  "fst (tryBlock closeFailsBackend ''<p>hi</p>'' plainOptions) = Inr plainResult
   \<and> renderHtmlToBuffer closeFailsBackend True ''<p>hi</p>'' plainOptions =
       (Inl (EngineError ''Target closed''), True,
        [NewContext \<lparr>deviceScaleFactor = None, viewport = None\<rparr>, NewPage,
         SetContent ''<p>hi</p>'', Evaluate, Pdf (pdfOptionsOf plainOptions plainLayout),
         PageClose])
   \<and> fst (tryBlock timeoutCloseFailsBackend ''<p>hi</p>'' plainOptions) = Inl TimeoutError
   \<and> renderHtmlToBuffer timeoutCloseFailsBackend True ''<p>hi</p>'' plainOptions =
       (Inl (EngineError ''Target closed''), True,
        [NewContext \<lparr>deviceScaleFactor = None, viewport = None\<rparr>, NewPage,
         SetContent ''<p>hi</p>'', PageClose])
   \<and> renderHtmlToBuffer noPageBackend True ''<p>hi</p>'' plainOptions =
       (Inl (EngineError ''Target crashed''), True,
        [NewContext \<lparr>deviceScaleFactor = None, viewport = None\<rparr>, NewPage])"
proof -
  have t1: "tryBlock closeFailsBackend ''<p>hi</p>'' plainOptions =
     (Inr plainResult, [SetContent ''<p>hi</p>'', Evaluate, Pdf (pdfOptionsOf plainOptions plainLayout)])"
    by (rule plain_tryBlock) (simp_all add: closeFailsBackend_def steadyBackend_def)
  have t2: "tryBlock timeoutCloseFailsBackend ''<p>hi</p>'' plainOptions =
     (Inl TimeoutError, [SetContent ''<p>hi</p>''])"
    by (simp add: tryBlock_def timeoutCloseFailsBackend_def)
  have r1: "renderHtmlToBuffer closeFailsBackend True ''<p>hi</p>'' plainOptions =
       (Inl (EngineError ''Target closed''), True,
        [NewContext \<lparr>deviceScaleFactor = None, viewport = None\<rparr>, NewPage,
         SetContent ''<p>hi</p>'', Evaluate, Pdf (pdfOptionsOf plainOptions plainLayout),
         PageClose])"
    unfolding renderHtmlToBuffer_def t1
    by (simp add: initBrowser_def dpiOf_def contextOptionsOf_def finallyBlock_def
        closeFailsBackend_def steadyBackend_def plainOptions_def)
  have r2: "renderHtmlToBuffer timeoutCloseFailsBackend True ''<p>hi</p>'' plainOptions =
       (Inl (EngineError ''Target closed''), True,
        [NewContext \<lparr>deviceScaleFactor = None, viewport = None\<rparr>, NewPage,
         SetContent ''<p>hi</p>'', PageClose])"
    unfolding renderHtmlToBuffer_def t2
    by (simp add: initBrowser_def dpiOf_def contextOptionsOf_def finallyBlock_def
        timeoutCloseFailsBackend_def closeFailsBackend_def steadyBackend_def plainOptions_def)
  have r3: "renderHtmlToBuffer noPageBackend True ''<p>hi</p>'' plainOptions =
       (Inl (EngineError ''Target crashed''), True,
        [NewContext \<lparr>deviceScaleFactor = None, viewport = None\<rparr>, NewPage])"
    by (simp add: renderHtmlToBuffer_def initBrowser_def dpiOf_def contextOptionsOf_def
        noPageBackend_def steadyBackend_def plainOptions_def)
  from t1 t2 r1 r2 r3 show ?thesis by simp
qed

text \<open>
  C5, as amended.  Once the browser is there and the context and the page have been
  created, every run calls \<open>page.close()\<close> exactly once, after all other calls, whatever
  the \<open>try\<close> block did (returned an object, timed out on the content load, or failed
  otherwise), and then \<open>context.close()\<close> exactly once unless \<open>page.close()\<close> failed.
  When both succeed the outcome of the run is the outcome of the \<open>try\<close> block; an error
  of \<open>page.close()\<close> or \<open>context.close()\<close> is the outcome of the run.
\<close>

theorem teardown_after_page_creation:
  assumes init: "initBrowser be browser = (None, b, ev0)"
    and d: "dpiOf (dpi opts) = Inr d"
    and ctx: "newContext be (contextOptionsOf (truthy (png opts)) d) = None"
    and page: "newPage be = None"
  shows "count_list (snd (snd (renderHtmlToBuffer be browser html opts))) PageClose = 1
       \<and> count_list (snd (snd (renderHtmlToBuffer be browser html opts))) ContextClose =
           (if pageClose be = None then 1 else 0)
       \<and> (\<exists>evs. snd (snd (renderHtmlToBuffer be browser html opts)) =
                  evs @ (if pageClose be = None then [PageClose, ContextClose] else [PageClose]))
       \<and> (pageClose be = None \<and> contextClose be = None \<longrightarrow>
            fst (renderHtmlToBuffer be browser html opts) = fst (tryBlock be html opts))
       \<and> (pageClose be = Some e \<longrightarrow> fst (renderHtmlToBuffer be browser html opts) = Inl e)
       \<and> (pageClose be = None \<and> contextClose be = Some e \<longrightarrow>
            fst (renderHtmlToBuffer be browser html opts) = Inl e)"
proof -
  let ?co = "contextOptionsOf (truthy (png opts)) d"
  let ?pre = "ev0 @ [NewContext ?co, NewPage] @ snd (tryBlock be html opts)"
  have run: "renderHtmlToBuffer be browser html opts =
      (fst (finallyBlock be (fst (tryBlock be html opts))), b,
       ?pre @ snd (finallyBlock be (fst (tryBlock be html opts))))"
    using renderHtmlToBuffer_run [OF init d ctx page] by simp
  have pre: "PageClose \<notin> set ?pre" "ContextClose \<notin> set ?pre"
    using tryBlock_events [of be html opts] initBrowser_events [OF init] by auto
  have fin: "snd (finallyBlock be c) = (if pageClose be = None then [PageClose, ContextClose] else [PageClose])" for c
    by (auto simp: finallyBlock_def split: option.splits)
  have out: "fst (finallyBlock be c) =
      (case pageClose be of Some e \<Rightarrow> Inl e
       | None \<Rightarrow> (case contextClose be of Some e \<Rightarrow> Inl e | None \<Rightarrow> c))" for c
    by (auto simp: finallyBlock_def split: option.splits)
  show ?thesis
    unfolding run using pre
    by (auto simp: fin out count_list_notin)
qed

theorem teardown_after_page_creation_witness:
  "initBrowser timeoutBackend True = (None, True, [])
   \<and> dpiOf (dpi plainOptions) = Inr (Fin 96)
   \<and> newContext timeoutBackend (contextOptionsOf (truthy (png plainOptions)) (Fin 96)) = None
   \<and> newPage timeoutBackend = None
   \<and> pageClose timeoutBackend = None \<and> contextClose timeoutBackend = None
   \<and> fst (tryBlock timeoutBackend ''<p>hi</p>'' plainOptions) = Inl TimeoutError
   \<and> count_list (snd (snd (renderHtmlToBuffer timeoutBackend True ''<p>hi</p>'' plainOptions))) PageClose = 1
   \<and> count_list (snd (snd (renderHtmlToBuffer timeoutBackend True ''<p>hi</p>'' plainOptions))) ContextClose = 1
   \<and> fst (renderHtmlToBuffer timeoutBackend True ''<p>hi</p>'' plainOptions) = Inl TimeoutError"
proof -
  have init: "initBrowser timeoutBackend True = (None, True, [])"
    by (simp add: initBrowser_def)
  have d: "dpiOf (dpi plainOptions) = Inr (Fin 96)"
    by (simp add: dpiOf_def plainOptions_def)
  have be: "newContext timeoutBackend (contextOptionsOf (truthy (png plainOptions)) (Fin 96)) = None"
    "newPage timeoutBackend = None" "pageClose timeoutBackend = None"
    "contextClose timeoutBackend = None"
    by (simp_all add: timeoutBackend_def steadyBackend_def)
  have t: "fst (tryBlock timeoutBackend ''<p>hi</p>'' plainOptions) = Inl TimeoutError"
    by (simp add: tryBlock_def timeoutBackend_def)
  from teardown_after_page_creation [OF init d be(1,2), of "''<p>hi</p>''"] init d be t
  show ?thesis by simp
qed

section \<open>Margin conversion\<close>

lemma endsWith_append: "endsWith (n @ t) t"
  by (simp add: endsWith_def)

lemma endsWith_append_other:
  "length t = length t' \<Longrightarrow> endsWith (n @ t) t' = (t = t')"
  by (auto simp: endsWith_def)

lemma sliceOffTwo_append: "sliceOffTwo (n @ [a, b]) = n"
  by (simp add: sliceOffTwo_def)

lemma parseMarginToMm_mm: "parseMarginToMm (Str (n @ ''mm'')) = Inr (parseFloat n)"
  by (simp add: endsWith_append sliceOffTwo_append)

lemma parseMarginToMm_cm:
  "parseMarginToMm (Str (n @ ''cm'')) = Inr (jsmul (parseFloat n) (Fin 10))"
  by (simp add: endsWith_append endsWith_append_other sliceOffTwo_append)

lemma parseMarginToMm_in:
  "parseMarginToMm (Str (n @ ''in'')) = Inr (jsmul (parseFloat n) (Fin (254 / 10)))"
  by (simp add: endsWith_append endsWith_append_other sliceOffTwo_append)

lemma parseMarginToMm_bare:
  "\<not> endsWith s ''mm'' \<Longrightarrow> \<not> endsWith s ''cm'' \<Longrightarrow> \<not> endsWith s ''in'' \<Longrightarrow>
   parseMarginToMm (Str s) = Inr (if s = [] then Fin 0 else parseFloat s)"
  by simp

lemma parseFloat_Nil: "parseFloat [] = NaN"
  by (simp add: parseFloat_def signedDecimal_def)

lemma parseMarginToMm_total:
  "\<exists>m. parseMarginToMm (Str s) = Inr m" "\<exists>m. parseMarginToMm (Num k) = Inr m"
  by simp_all

lemma marginToMm_total:
  "parseMarginToMm v = Inr n \<Longrightarrow> \<exists>m. marginToMm v = Inr m \<and> m \<noteq> NaN"
  by (auto simp: marginToMm_def numOr_def truthyNum_def)

lemma numOr_Fin: "numOr (Fin x) (Fin 0) = Fin x"
  by (simp add: numOr_def truthyNum_def)

lemma numOr_NaN: "numOr NaN (Fin 0) = Fin 0"
  by (simp add: numOr_def truthyNum_def)

text \<open>
  C6.  The margin conversion of line 82, \<open>parseMarginToMm(...) || 0\<close>, on a string or a
  number.  With \<open>N\<close> the number \<open>parseFloat\<close> reads from the text before the unit: \<open>Nmm\<close>
  gives \<open>N\<close>, \<open>Ncm\<close> gives \<open>N\<close> times 10 and \<open>Nin\<close> gives \<open>N\<close> times 25.4.  A number
  gives itself, and a string that ends in none of the three units gives the number
  \<open>parseFloat\<close> reads from it.  Where \<open>parseFloat\<close> reads no number the result is 0.  For
  every string and every number the conversion returns, and what it returns is not \<open>NaN\<close>.
\<close>

theorem margin_conversion:
  "(parseFloat n = Fin x \<longrightarrow>
      marginToMm (Str (n @ ''mm'')) = Inr (Fin x)
      \<and> marginToMm (Str (n @ ''cm'')) = Inr (Fin (x * 10))
      \<and> marginToMm (Str (n @ ''in'')) = Inr (Fin (x * (254 / 10))))
   \<and> marginToMm (Num (Fin k)) = Inr (Fin k)
   \<and> (\<not> endsWith s ''mm'' \<and> \<not> endsWith s ''cm'' \<and> \<not> endsWith s ''in'' \<and> parseFloat s = Fin y \<longrightarrow>
      marginToMm (Str s) = Inr (Fin y))
   \<and> (\<not> endsWith u ''mm'' \<and> \<not> endsWith u ''cm'' \<and> \<not> endsWith u ''in'' \<and> parseFloat u = NaN \<longrightarrow>
      marginToMm (Str u) = Inr (Fin 0))
   \<and> (parseFloat q = NaN \<longrightarrow>
      marginToMm (Str (q @ ''mm'')) = Inr (Fin 0)
      \<and> marginToMm (Str (q @ ''cm'')) = Inr (Fin 0)
      \<and> marginToMm (Str (q @ ''in'')) = Inr (Fin 0))
   \<and> (\<exists>m. marginToMm (Str a) = Inr m \<and> m \<noteq> NaN)
   \<and> (\<exists>m. marginToMm (Num b) = Inr m \<and> m \<noteq> NaN)"
proof (intro conjI impI)
  show "marginToMm (Num (Fin k)) = Inr (Fin k)"
    by (simp add: marginToMm_def truthyNum_def numOr_def)
  show "\<exists>m. marginToMm (Str a) = Inr m \<and> m \<noteq> NaN"
    using parseMarginToMm_total(1) [of a] by (blast dest: marginToMm_total)
  show "\<exists>m. marginToMm (Num b) = Inr m \<and> m \<noteq> NaN"
    using parseMarginToMm_total(2) [of b] by (blast dest: marginToMm_total)
next
  assume "\<not> endsWith s ''mm'' \<and> \<not> endsWith s ''cm'' \<and> \<not> endsWith s ''in'' \<and> parseFloat s = Fin y"
  then show "marginToMm (Str s) = Inr (Fin y)"
    by (cases "s = []") (auto simp: marginToMm_def parseMarginToMm_bare parseFloat_Nil numOr_Fin)
next
  assume "\<not> endsWith u ''mm'' \<and> \<not> endsWith u ''cm'' \<and> \<not> endsWith u ''in'' \<and> parseFloat u = NaN"
  then show "marginToMm (Str u) = Inr (Fin 0)"
    by (auto simp: marginToMm_def parseMarginToMm_bare numOr_Fin numOr_NaN)
qed (simp_all add: marginToMm_def parseMarginToMm_mm parseMarginToMm_cm parseMarginToMm_in
      numOr_Fin numOr_NaN del: parseMarginToMm.simps)

theorem margin_conversion_witness:
  "parseFloat ''1.5'' = Fin (3 / 2)
   \<and> marginToMm (Str (''1.5'' @ ''mm'')) = Inr (Fin (3 / 2))
   \<and> marginToMm (Str (''1.5'' @ ''cm'')) = Inr (Fin (3 / 2 * 10))
   \<and> marginToMm (Str (''1.5'' @ ''in'')) = Inr (Fin (3 / 2 * (254 / 10)))
   \<and> \<not> endsWith ''10px'' ''mm'' \<and> \<not> endsWith ''10px'' ''cm'' \<and> \<not> endsWith ''10px'' ''in''
   \<and> parseFloat ''10px'' = Fin 10
   \<and> marginToMm (Str ''10px'') = Inr (Fin 10)
   \<and> \<not> endsWith ''abc'' ''mm'' \<and> \<not> endsWith ''abc'' ''cm'' \<and> \<not> endsWith ''abc'' ''in''
   \<and> parseFloat ''abc'' = NaN
   \<and> marginToMm (Str ''abc'') = Inr (Fin 0)
   \<and> parseFloat ''x'' = NaN
   \<and> marginToMm (Str (''x'' @ ''mm'')) = Inr (Fin 0)"
proof -
  have n: "parseFloat ''1.5'' = Fin (3 / 2)"
    and s: "\<not> endsWith ''10px'' ''mm'' \<and> \<not> endsWith ''10px'' ''cm'' \<and> \<not> endsWith ''10px'' ''in''
            \<and> parseFloat ''10px'' = Fin 10"
    and u: "\<not> endsWith ''abc'' ''mm'' \<and> \<not> endsWith ''abc'' ''cm'' \<and> \<not> endsWith ''abc'' ''in''
            \<and> parseFloat ''abc'' = NaN"
    and q: "parseFloat ''x'' = NaN"
    by (simp_all add: string_defs)
  from margin_conversion [of "''1.5''" "3 / 2" 7 "''10px''" 10 "''abc''" "''x''" "''abc''" NaN] n s u q
  show ?thesis by blast
qed

section \<open>Paper geometry\<close>

lemma toUpperCase_A4: "toUpperCase ''A4'' = ''A4''"
  by (simp add: toUpperCase_def upperChar_def)

lemma paperOf_Str: "paperOf (Str s) = Inr (if s = [] then ''A4'' else toUpperCase s)"
  by (simp add: paperOf_def jsor_def toUpperCase_A4)

lemma toUpperCase_Nil_iff: "toUpperCase s = [] \<longleftrightarrow> s = []"
  by (simp add: toUpperCase_def)

lemma paperMm_unknown: "p \<notin> PAPER_SIZES \<Longrightarrow> paperMm p = (210, 297)"
  by (simp add: paperMm_def PAPER_SIZES_def)

lemma paperMm_A4: "paperMm ''A4'' = (210, 297)"
  by (simp add: paperMm_def)

lemma pdf_format: "pdfOptions.format (pdfOptionsOf opts l) =
    (if layout.paper l \<in> PAPER_SIZES then layout.paper l else ''A4'')"
  by (simp add: pdfOptionsOf_def Let_def)

lemma b5_layout: "fitLayout b5Options box800x600 = Inr (plainLayout \<lparr> layout.paper := ''B5'' \<rparr>)"
  by (simp add: b5Options_def plainOptions_def box800x600_def plainLayout_def layout_defs
      number_defs string_defs)


text \<open>
  C7.  For a paper name that is a string: when its upper case is none of \<open>A4\<close>, \<open>A5\<close>,
  \<open>LETTER\<close>, \<open>LEGAL\<close>, the geometry is that of A4 (210 by 297 millimetres, swapped in
  landscape) and the format handed to \<open>page.pdf\<close> is \<open>A4\<close>.  For every string the format
  handed to \<open>page.pdf\<close> is one of the four names and the size table gives it the geometry
  the layout uses, so the two defaults agree.
\<close>

theorem unknown_paper_defaults_to_A4:
  assumes fmt: "options.format opts = Str s" and l: "fitLayout opts cs = Inr l"
  shows "(toUpperCase s \<notin> PAPER_SIZES \<longrightarrow>
            paperMm (layout.paper l) = (210, 297)
            \<and> pdfOptions.format (pdfOptionsOf opts l) = ''A4''
            \<and> (\<not> isLandscape (options.orientation opts) \<longrightarrow>
                  paperWidthMm l = Fin 210 \<and> paperHeightMm l = Fin 297)
            \<and> (isLandscape (options.orientation opts) \<longrightarrow>
                  paperWidthMm l = Fin 297 \<and> paperHeightMm l = Fin 210))
       \<and> pdfOptions.format (pdfOptionsOf opts l) \<in> PAPER_SIZES
       \<and> paperMm (pdfOptions.format (pdfOptionsOf opts l)) = paperMm (layout.paper l)"
proof -
  have p: "layout.paper l = (if s = [] then ''A4'' else toUpperCase s)"
    using fitLayout_InrD(1) [OF l] by (simp add: fmt paperOf_Str)
  have unknown: "paperMm (layout.paper l) = (210, 297)
      \<and> pdfOptions.format (pdfOptionsOf opts l) = ''A4''" if "toUpperCase s \<notin> PAPER_SIZES"
    using that by (auto simp: p pdf_format paperMm_unknown paperMm_A4 toUpperCase_Nil_iff)
  have agree: "pdfOptions.format (pdfOptionsOf opts l) \<in> PAPER_SIZES
      \<and> paperMm (pdfOptions.format (pdfOptionsOf opts l)) = paperMm (layout.paper l)"
    by (auto simp: pdf_format paperMm_unknown paperMm_A4) (simp add: PAPER_SIZES_def)
  from unknown agree show ?thesis
    by (auto simp: fitLayout_InrD(3,4) [OF l])
qed

theorem unknown_paper_defaults_to_A4_witness:
  "options.format b5Options = Str ''B5''
   \<and> fitLayout b5Options box800x600 = Inr (plainLayout \<lparr> layout.paper := ''B5'' \<rparr>)
   \<and> toUpperCase ''B5'' \<notin> PAPER_SIZES
   \<and> paperMm (layout.paper (plainLayout \<lparr> layout.paper := ''B5'' \<rparr>)) = (210, 297)
   \<and> pdfOptions.format (pdfOptionsOf b5Options (plainLayout \<lparr> layout.paper := ''B5'' \<rparr>)) = ''A4''
   \<and> \<not> isLandscape (options.orientation b5Options)
   \<and> paperWidthMm (plainLayout \<lparr> layout.paper := ''B5'' \<rparr>) = Fin 210
   \<and> paperHeightMm (plainLayout \<lparr> layout.paper := ''B5'' \<rparr>) = Fin 297"
proof -
  have fmt: "options.format b5Options = Str ''B5''"
    by (simp add: b5Options_def)
  have up: "toUpperCase ''B5'' \<notin> PAPER_SIZES"
    by (simp add: PAPER_SIZES_def toUpperCase_def upperChar_def)
  have po: "\<not> isLandscape (options.orientation b5Options)"
    by (simp add: b5Options_def plainOptions_def isLandscape_def)
  from unknown_paper_defaults_to_A4 [OF fmt b5_layout] fmt b5_layout up po
  show ?thesis by blast
qed

text \<open>
  C8.  Content of 800 by 600 pixels on A4, portrait, margin 10mm, no manual scale, single
  page off: the available width is \<open>max(1, (210 - 2 * 10) * 96 / 25.4)\<close>, that is
  91200/127, within 0.01 of 718.11 pixels, and the scale is the available width divided by
  800, that is 114/127, within 0.0001 of 0.8976.
\<close>

theorem a4_portrait_10mm_800x600:
  "fitLayout (opts \<lparr> options.format := Str ''A4'', options.orientation := Str ''portrait'',
                     options.margin := Str ''10mm'', single := Bool False,
                     options.scale := Undefined \<rparr>) \<lparr>width = Fin 800, height = Fin 600\<rparr>
     = Inr plainLayout
   \<and> availableWidthPx plainLayout = Math_max (Fin 1) (Fin ((210 - 2 * 10) * (96 / (254 / 10))))
   \<and> availableWidthPx plainLayout = Fin (91200 / 127)
   \<and> \<bar>91200 / 127 - 71811 / 100\<bar> < (1 / 100 :: real)
   \<and> finalScale plainLayout = jsdiv (availableWidthPx plainLayout) (Fin 800)
   \<and> finalScale plainLayout = Fin (114 / 127)
   \<and> \<bar>114 / 127 - 8976 / 10000\<bar> < (1 / 10000 :: real)"
proof -
  have "fitLayout (opts \<lparr> options.format := Str ''A4'', options.orientation := Str ''portrait'',
                     options.margin := Str ''10mm'', single := Bool False,
                     options.scale := Undefined \<rparr>) cs = fitLayout plainOptions cs" for cs
    by (rule fitLayout_cong) (simp_all add: plainOptions_def manualOverride_falsy)
  then show ?thesis
    using plain_layout by (simp add: box800x600_def plainLayout_def Math_max_def)
qed

section \<open>The \<open>dpi\<close> option\<close>

lemma png_run:
  "fst (renderHtmlToBuffer steadyBackend False ''<p>hi</p>''
         (plainOptions \<lparr> png := Bool True, dpi := Num d \<rparr>)) = Inr pngResult"
proof -
  have l: "fitLayout (plainOptions \<lparr> png := Bool True, dpi := Num d \<rparr>) box800x600 = Inr plainLayout"
    using plain_layout fitLayout_cong [of "plainOptions \<lparr> png := Bool True, dpi := Num d \<rparr>" plainOptions]
    by simp
  have t: "fst (tryBlock steadyBackend ''<p>hi</p>'' (plainOptions \<lparr> png := Bool True, dpi := Num d \<rparr>))
      = Inr pngResult"
    by (simp add: tryBlock_def emit_def steadyBackend_def l)
      (simp add: pngResult_def plainResult_def plainLayout_def plainOptions_def jsor_def)
  have n: "dpiOf (Num d) = Inr (if truthyNum d \<and> jslt (Fin 0) d then d else Fin 96)"
    by (simp add: dpiOf_def)
  have "fst (renderHtmlToBuffer steadyBackend False ''<p>hi</p>''
         (plainOptions \<lparr> png := Bool True, dpi := Num d \<rparr>)) =
        fst (tryBlock steadyBackend ''<p>hi</p>'' (plainOptions \<lparr> png := Bool True, dpi := Num d \<rparr>))"
    by (rule renderHtmlToBuffer_session [where b = True])
      (simp_all add: initBrowser_def n steadyBackend_def)
  with t show ?thesis by simp
qed

text \<open>
  C9.  The layout does not depend on the \<open>dpi\<close> option: two requests that differ in
  \<open>dpi\<close> only have the same paper geometry, available area and scales for the same
  content box, with 96/25.4 pixels to the millimetre.  Two runs that differ in \<open>dpi\<close> only
  and return objects with the same measured content size return the same scale, paper and
  orientation.
\<close>

theorem layout_independent_of_dpi:
  "fitLayout (opts \<lparr> dpi := da \<rparr>) cs = fitLayout (opts \<lparr> dpi := db \<rparr>) cs
   \<and> pxPerMm = Fin (96 / (254 / 10))
   \<and> (fst (renderHtmlToBuffer bea bra html (opts \<lparr> dpi := da \<rparr>)) = Inr ra
      \<and> fst (renderHtmlToBuffer beb brb html (opts \<lparr> dpi := db \<rparr>)) = Inr rb
      \<and> result.contentSize ra = result.contentSize rb \<longrightarrow>
        result.scale ra = result.scale rb \<and> result.paper ra = result.paper rb
        \<and> result.orientation ra = result.orientation rb)"
proof (intro conjI impI)
  show eq: "fitLayout (opts \<lparr> dpi := da \<rparr>) cs = fitLayout (opts \<lparr> dpi := db \<rparr>) cs" for cs
    by (rule fitLayout_cong) simp_all
  show "pxPerMm = Fin (96 / (254 / 10))"
    by (simp add: pxPerMm_def)
  assume runs: "fst (renderHtmlToBuffer bea bra html (opts \<lparr> dpi := da \<rparr>)) = Inr ra
      \<and> fst (renderHtmlToBuffer beb brb html (opts \<lparr> dpi := db \<rparr>)) = Inr rb
      \<and> result.contentSize ra = result.contentSize rb"
  then have "fst (tryBlock bea html (opts \<lparr> dpi := da \<rparr>)) = Inr ra"
    and "fst (tryBlock beb html (opts \<lparr> dpi := db \<rparr>)) = Inr rb"
    using renderHtmlToBuffer_InrD by blast+
  then obtain l1 l2 where
      l1: "fitLayout (opts \<lparr> dpi := da \<rparr>) (result.contentSize ra) = Inr l1"
        "result.scale ra = finalScale l1" "result.paper ra = layout.paper l1"
        "result.orientation ra = jsor (options.orientation (opts \<lparr> dpi := da \<rparr>)) (Str ''portrait'')"
    and l2: "fitLayout (opts \<lparr> dpi := db \<rparr>) (result.contentSize rb) = Inr l2"
        "result.scale rb = finalScale l2" "result.paper rb = layout.paper l2"
        "result.orientation rb = jsor (options.orientation (opts \<lparr> dpi := db \<rparr>)) (Str ''portrait'')"
    by (elim tryBlock_InrD) blast
  from l1(1) l2(1) runs eq have "l1 = l2" by simp
  with l1 l2 show "result.scale ra = result.scale rb" "result.paper ra = result.paper rb"
    "result.orientation ra = result.orientation rb"
    by simp_all
qed


theorem layout_independent_of_dpi_witness:
  "fst (renderHtmlToBuffer steadyBackend False ''<p>hi</p>''
         (plainOptions \<lparr> png := Bool True, dpi := Num (Fin 96) \<rparr>)) = Inr pngResult
   \<and> fst (renderHtmlToBuffer steadyBackend False ''<p>hi</p>''
         (plainOptions \<lparr> png := Bool True, dpi := Num (Fin 192) \<rparr>)) = Inr pngResult
   \<and> fitLayout (plainOptions \<lparr> png := Bool True, dpi := Num (Fin 96) \<rparr>) box800x600 =
       fitLayout (plainOptions \<lparr> png := Bool True, dpi := Num (Fin 192) \<rparr>) box800x600
   \<and> result.scale pngResult = result.scale pngResult"
proof -
  have r1: "fst (renderHtmlToBuffer steadyBackend False ''<p>hi</p>''
         (plainOptions \<lparr> png := Bool True, dpi := Num (Fin 96) \<rparr>)) = Inr pngResult"
    and r2: "fst (renderHtmlToBuffer steadyBackend False ''<p>hi</p>''
         (plainOptions \<lparr> png := Bool True, dpi := Num (Fin 192) \<rparr>)) = Inr pngResult"
    by (simp_all add: png_run)
  from layout_independent_of_dpi [where opts = "plainOptions \<lparr> png := Bool True \<rparr>"
      and da = "Num (Fin 96)" and db = "Num (Fin 192)" and cs = box800x600
      and bea = steadyBackend and beb = steadyBackend and bra = False and brb = False
      and html = "''<p>hi</p>''" and ra = pngResult and rb = pngResult]
    r1 r2
  show ?thesis by simp
qed

section \<open>Orientation\<close>

lemma toUpperCase_a5: "toUpperCase ''a5'' = ''A5''"
  by code_simp

lemma paperOf_a5: "paperOf (Str ''a5'') = Inr ''A5''"
  by (simp add: paperOf_Str toUpperCase_a5)

lemma a5_layouts:
  "fitLayout (a5Options ''Landscape'') box800x600 = Inr (a5Layout 148 210)"
  "fitLayout (a5Options ''LANDSCAPE'') box800x600 = Inr (a5Layout 148 210)"
  "fitLayout (a5Options ''landscape'') box800x600 = Inr (a5Layout 210 148)"
  by (simp_all add: a5Options_def a5Layout_def plainOptions_def box800x600_def fitLayout_def
      paperOf_a5 paperMm_def isLandscape_def marginToMm_def availablePx_def manualOverride_def
      safetyClamp_def Let_def number_defs string_defs)


text \<open>
  C10.  Width and height of the paper are swapped, and the \<open>landscape\<close> flag of
  \<open>page.pdf\<close> is set, exactly when the orientation option is the string \<open>landscape\<close> in
  lower case; width and height of every paper differ, so the swap shows.  The paper name,
  in contrast, is matched in upper case.
\<close>

theorem orientation_is_case_sensitive:
  assumes l: "fitLayout opts cs = Inr l"
  shows "(options.orientation opts = Str ''landscape'' \<longrightarrow>
            paperWidthMm l = Fin (snd (paperMm (layout.paper l)))
            \<and> paperHeightMm l = Fin (fst (paperMm (layout.paper l)))
            \<and> landscape (pdfOptionsOf opts l))
       \<and> (options.orientation opts \<noteq> Str ''landscape'' \<longrightarrow>
            paperWidthMm l = Fin (fst (paperMm (layout.paper l)))
            \<and> paperHeightMm l = Fin (snd (paperMm (layout.paper l)))
            \<and> \<not> landscape (pdfOptionsOf opts l))
       \<and> fst (paperMm (layout.paper l)) \<noteq> snd (paperMm (layout.paper l))
       \<and> (\<forall>s. options.format opts = Str s \<and> s \<noteq> [] \<longrightarrow> layout.paper l = toUpperCase s)"
proof -
  have "landscape (pdfOptionsOf opts l) = (options.orientation opts = Str ''landscape'')"
    by (simp add: pdfOptionsOf_def Let_def isLandscape_def)
  moreover have "fst (paperMm p) \<noteq> snd (paperMm p)" for p
    by (simp add: paperMm_def)
  moreover have "layout.paper l = toUpperCase s" if "options.format opts = Str s" "s \<noteq> []" for s
    using fitLayout_InrD(1) [OF l] that by (simp add: paperOf_Str)
  ultimately show ?thesis
    using fitLayout_InrD(3,4) [OF l] by (auto simp: isLandscape_def)
qed

theorem orientation_is_case_sensitive_witness:
  "fitLayout (a5Options ''Landscape'') box800x600 = Inr (a5Layout 148 210)
   \<and> options.orientation (a5Options ''Landscape'') \<noteq> Str ''landscape''
   \<and> paperWidthMm (a5Layout 148 210) = Fin (fst (paperMm (layout.paper (a5Layout 148 210))))
   \<and> \<not> landscape (pdfOptionsOf (a5Options ''Landscape'') (a5Layout 148 210))
   \<and> fitLayout (a5Options ''LANDSCAPE'') box800x600 = Inr (a5Layout 148 210)
   \<and> \<not> landscape (pdfOptionsOf (a5Options ''LANDSCAPE'') (a5Layout 148 210))
   \<and> fitLayout (a5Options ''landscape'') box800x600 = Inr (a5Layout 210 148)
   \<and> options.orientation (a5Options ''landscape'') = Str ''landscape''
   \<and> paperWidthMm (a5Layout 210 148) = Fin (snd (paperMm (layout.paper (a5Layout 210 148))))
   \<and> landscape (pdfOptionsOf (a5Options ''landscape'') (a5Layout 210 148))
   \<and> options.format (a5Options ''landscape'') = Str ''a5''
   \<and> layout.paper (a5Layout 210 148) = toUpperCase ''a5''"
proof -
  have o: "options.orientation (a5Options ''Landscape'') \<noteq> Str ''landscape''"
    "options.orientation (a5Options ''LANDSCAPE'') \<noteq> Str ''landscape''"
    "options.orientation (a5Options ''landscape'') = Str ''landscape''"
    "options.format (a5Options ''landscape'') = Str ''a5''" "''a5'' \<noteq> []"
    by (simp_all add: a5Options_def)
  from orientation_is_case_sensitive [OF a5_layouts(1)] orientation_is_case_sensitive [OF a5_layouts(2)]
    orientation_is_case_sensitive [OF a5_layouts(3)] a5_layouts o
  show ?thesis by blast
qed

end
